theory Spec2Isabelle
  imports Complex_Main "HOL-Library.Char_ord" "HOL-Library.List_Lexorder" "HOL-Library.AList"
begin

section \<open>The dataset\<close>

text \<open>
  The dataset of \<^verbatim>\<open>app.py\<close> is a pandas data frame: named columns in order, each of one
  dtype. A column of strings (dtype object) is a \<open>StrCol\<close>, a column of numbers (float64 or
  int64) is a \<open>NumCol\<close>; \<open>None\<close> is a missing cell (NaN). Numbers are exact rationals: the
  binary rounding of float64 is not modelled.
\<close>

datatype column = StrCol "string option list" | NumCol "rat option list"

type_synonym dataset = "(string \<times> column) list"

datatype error = MissingColumn string | TypeError string

text \<open>\<^verbatim>\<open>df[c]\<close>: the column named \<open>c\<close>, or the fault raised when there is none.\<close>

definition getitem :: "dataset \<Rightarrow> string \<Rightarrow> error + column" where
  "getitem d c = (case map_of d c of None \<Rightarrow> Inl (MissingColumn c) | Some col \<Rightarrow> Inr col)"

definition columns :: "dataset \<Rightarrow> string list" where
  "columns d = map fst d"

fun dropna :: "'a option list \<Rightarrow> 'a list" where
  "dropna [] = []"
| "dropna (None # xs) = dropna xs"
| "dropna (Some x # xs) = x # dropna xs"

text \<open>\<^verbatim>\<open>Series.nunique()\<close>: the number of distinct values, missing cells not counted.\<close>

fun nunique :: "column \<Rightarrow> nat" where
  "nunique (StrCol xs) = length (remdups (dropna xs))"
| "nunique (NumCol xs) = length (remdups (dropna xs))"

text \<open>
  \<^verbatim>\<open>Series.sum()\<close> and \<^verbatim>\<open>Series.mean()\<close> skip missing cells; the mean of no cell is NaN
  (\<open>None\<close>). On a column of strings neither yields a number: the model reports a type
  fault there.
\<close>

fun series_sum :: "column \<Rightarrow> error + rat" where
  "series_sum (NumCol xs) = Inr (sum_list (dropna xs))"
| "series_sum (StrCol xs) = Inl (TypeError ''sum'')"

fun series_mean :: "column \<Rightarrow> error + rat option" where
  "series_mean (NumCol xs) =
     (let ys = dropna xs
      in if ys = [] then Inr None else Inr (Some (sum_list ys / of_nat (length ys))))"
| "series_mean (StrCol xs) = Inl (TypeError ''mean'')"

text \<open>
  \<^verbatim>\<open>.round(d)\<close> of numpy: scale by \<open>10 ^ d\<close>, round to the nearest integer with ties to the
  even one, scale back.
\<close>

definition rint :: "rat \<Rightarrow> int" where
  "rint x =
     (let f = \<lfloor>x\<rfloor>; r = x - of_int f
      in if r < 1 / 2 then f else if 1 / 2 < r then f + 1 else if even f then f else f + 1)"

definition np_round :: "nat \<Rightarrow> rat \<Rightarrow> rat" where
  "np_round d x = of_int (rint (x * 10 ^ d)) / 10 ^ d"

section \<open>The plot folder and the state of the process\<close>

text \<open>
  A file of the plot folder is a picture drawn by this program (the name of the chart and
  the data it was drawn from) or anything else. The folder lists each name once, so it is
  an association list; \<open>oplog\<close> records the removals and writes in the order they happen.
\<close>

datatype content = Image string dataset | Blob string

type_synonym directory = "(string \<times> content) list"

datatype fs_op = Removed string | Saved string

record world =
  df :: dataset
  plot_folder :: directory
  oplog :: "fs_op list"

definition listdir :: "world \<Rightarrow> string list" where
  "listdir w = map fst (plot_folder w)"

text \<open>\<^verbatim>\<open>s.endswith(suf)\<close>\<close>

definition endswith :: "string \<Rightarrow> string \<Rightarrow> bool" where
  "endswith s suf = (take (length suf) (rev s) = rev suf)"

definition is_png :: "string \<Rightarrow> bool" where
  "is_png f = endswith f ''.png''"

definition os_remove :: "string \<Rightarrow> world \<Rightarrow> world" where
  "os_remove f w =
     w\<lparr>plot_folder := filter (\<lambda>e. fst e \<noteq> f) (plot_folder w), oplog := oplog w @ [Removed f]\<rparr>"

definition savefig :: "string \<Rightarrow> content \<Rightarrow> world \<Rightarrow> world" where
  "savefig f c w =
     w\<lparr>plot_folder := AList.update f c (plot_folder w), oplog := oplog w @ [Saved f]\<rparr>"

section \<open>Summary metrics: \<^verbatim>\<open>home\<close>\<close>

record metrics =
  total_users :: nat
  total_earnings :: rat
  avg_rating :: "rat option"

definition home :: "world \<Rightarrow> (error + metrics) \<times> world" where
  "home w =
     (case getitem (df w) ''Category'' of
        Inl e \<Rightarrow> (Inl e, w)
      | Inr cat \<Rightarrow>
          (case getitem (df w) ''Total_Earning'' of
             Inl e \<Rightarrow> (Inl e, w)
           | Inr te \<Rightarrow>
               (case series_sum te of
                  Inl e \<Rightarrow> (Inl e, w)
                | Inr s \<Rightarrow>
                    (case getitem (df w) ''Rating'' of
                       Inl e \<Rightarrow> (Inl e, w)
                     | Inr ra \<Rightarrow>
                         (case series_mean ra of
                            Inl e \<Rightarrow> (Inl e, w)
                          | Inr m \<Rightarrow>
                              (Inr \<lparr>total_users = nunique cat, total_earnings = s,
                                    avg_rating = map_option (np_round 2) m\<rparr>, w))))))"

section \<open>Chart generation: \<^verbatim>\<open>generate_plots\<close>\<close>

text \<open>
  Each of the 25 blocks of \<^verbatim>\<open>generate_plots\<close> reads columns of the data frame by name,
  draws and saves one file. Blocks 1 and 2 take the whole frame (its numeric columns);
  the others name their columns, listed here in the order the block reads them. A block
  whose column is absent raises (pandas a KeyError, seaborn a ValueError) and the
  function has no handler, so the blocks after it do not run. The drawing itself belongs
  to matplotlib and seaborn and is kept abstract: a block whose columns are all present
  yields the picture \<open>Image name data\<close>.
\<close>

datatype recipe = FrameChart string | ColumnChart string "string list"

fun out_name :: "recipe \<Rightarrow> string" where
  "out_name (FrameChart n) = n"
| "out_name (ColumnChart n cs) = n"

fun needs :: "recipe \<Rightarrow> string list" where
  "needs (FrameChart n) = []"
| "needs (ColumnChart n cs) = cs"

definition numeric_only :: "dataset \<Rightarrow> dataset" where
  "numeric_only d = filter (\<lambda>e. case snd e of NumCol xs \<Rightarrow> True | StrCol xs \<Rightarrow> False) d"

fun select :: "dataset \<Rightarrow> string list \<Rightarrow> error + dataset" where
  "select d [] = Inr []"
| "select d (c # cs) =
     (case getitem d c of
        Inl e \<Rightarrow> Inl e
      | Inr col \<Rightarrow> (case select d cs of Inl e \<Rightarrow> Inl e | Inr r \<Rightarrow> Inr ((c, col) # r)))"

fun draw :: "recipe \<Rightarrow> dataset \<Rightarrow> error + content" where
  "draw (FrameChart n) d = Inr (Image n (numeric_only d))"
| "draw (ColumnChart n cs) d =
     (case select d cs of Inl e \<Rightarrow> Inl e | Inr sub \<Rightarrow> Inr (Image n sub))"

definition recipes :: "recipe list" where
  "recipes =
    [FrameChart ''pairplot.png'',
     FrameChart ''correlation_heatmap.png'',
     ColumnChart ''earnings_by_rating.png'' [''Rating'', ''Total_Earning''],
     ColumnChart ''avg_price_gender.png'' [''Gender'', ''Price''],
     ColumnChart ''avg_reviews_gender.png'' [''Gender'', ''Review_Count''],
     ColumnChart ''total_earnings_gender.png'' [''Gender'', ''Total_Earning''],
     ColumnChart ''avg_rating_level.png'' [''Level'', ''Rating''],
     ColumnChart ''avg_reviews_level.png'' [''Level'', ''Review_Count''],
     ColumnChart ''reviews_by_rating.png'' [''Rating'', ''Review_Count''],
     ColumnChart ''price_boxplot_level.png'' [''Level'', ''Price''],
     ColumnChart ''earnings_boxplot_gender.png'' [''Total_Earning'', ''Gender''],
     ColumnChart ''reviews_boxplot_gender.png'' [''Review_Count'', ''Gender''],
     ColumnChart ''price_boxplot_gender.png'' [''Price'', ''Gender''],
     ColumnChart ''ratings_by_category.png'' [''Category'', ''Rating''],
     ColumnChart ''avg_rating_category.png'' [''Category'', ''Rating''],
     ColumnChart ''avg_earnings_category.png'' [''Category'', ''Total_Earning''],
     ColumnChart ''max_earnings_category.png'' [''Category'', ''Total_Earning''],
     ColumnChart ''total_earnings_category.png'' [''Category'', ''Total_Earning''],
     ColumnChart ''total_reviews_category.png'' [''Category'', ''Review_Count''],
     ColumnChart ''avg_price_category.png'' [''Category'', ''Price''],
     ColumnChart ''category_gender_count.png'' [''Category'', ''Gender''],
     ColumnChart ''price_category_gender.png'' [''Category'', ''Price'', ''Gender''],
     ColumnChart ''price_level_gender.png'' [''Level'', ''Price'', ''Gender''],
     ColumnChart ''review_count_kde.png'' [''Review_Count''],
     ColumnChart ''level_distribution.png'' [''Level'']]"



text \<open>The loop that clears the folder: the listing is taken once, then each name tested.\<close>

definition clear_plots :: "world \<Rightarrow> world" where
  "clear_plots w = fold (\<lambda>f v. if is_png f then os_remove f v else v) (listdir w) w"

text \<open>The blocks in sequence; the first fault ends the run and keeps what was written.\<close>

fun run_recipes :: "recipe list \<Rightarrow> world \<Rightarrow> (error + unit) \<times> world" where
  "run_recipes [] w = (Inr (), w)"
| "run_recipes (r # rs) w =
     (case draw r (df w) of
        Inl e \<Rightarrow> (Inl e, w)
      | Inr img \<Rightarrow> run_recipes rs (savefig (out_name r) img w))"

definition generate_plots :: "world \<Rightarrow> (error + nat) \<times> world" where
  "generate_plots w =
     (case run_recipes recipes (clear_plots w) of
        (Inl e, v) \<Rightarrow> (Inl e, v)
      | (Inr u, v) \<Rightarrow> (Inr (length (listdir v)), v))"

section \<open>The gallery page: \<^verbatim>\<open>eda\<close>\<close>

definition png_files :: "world \<Rightarrow> string list" where
  "png_files w = sort (filter is_png (listdir w))"

definition eda :: "world \<Rightarrow> (error + string list \<times> nat) \<times> world" where
  "eda w =
     (let plots = png_files w
      in if plots = []
         then (case generate_plots w of
                 (Inl e, v) \<Rightarrow> (Inl e, v)
               | (Inr num_plots, v) \<Rightarrow> (Inr (png_files v, num_plots), v))
         else (Inr (plots, length plots), w))"

section \<open>Start of the process: the sample dataset\<close>

text \<open>
  The random generator of numpy is a parameter: a seeding function and one function for
  each distribution, drawing one value and advancing the generator. A call with a size
  draws that many values in turn. The generator is global state of the process:
  \<^verbatim>\<open>np.random.seed(42)\<close> replaces whatever state it had.
\<close>

record 'g sampler =
  seed :: "nat \<Rightarrow> 'g"
  choice :: "string list \<Rightarrow> 'g \<Rightarrow> string \<times> 'g"
  uniform :: "rat \<Rightarrow> rat \<Rightarrow> 'g \<Rightarrow> rat \<times> 'g"
  exponential :: "rat \<Rightarrow> 'g \<Rightarrow> rat \<times> 'g"
  poisson :: "rat \<Rightarrow> 'g \<Rightarrow> nat \<times> 'g"

definition np_random_seed :: "'g sampler \<Rightarrow> nat \<Rightarrow> 'g \<Rightarrow> 'g" where
  "np_random_seed smp n g = seed smp n"

fun draws :: "('g \<Rightarrow> 'a \<times> 'g) \<Rightarrow> nat \<Rightarrow> 'g \<Rightarrow> 'a list \<times> 'g" where
  "draws f 0 g = ([], g)"
| "draws f (Suc n) g =
     (case f g of (x, g1) \<Rightarrow> (case draws f n g1 of (xs, g2) \<Rightarrow> (x # xs, g2)))"

definition sample_size :: nat where
  "sample_size = 1000"

definition categories :: "string list" where
  "categories = [''Graphic Design'', ''Digital Marketing'', ''Writing'', ''Video Editing'',
     ''Programming'']"

definition genders :: "string list" where
  "genders = [''Male'', ''Female'']"

definition languages :: "string list" where
  "languages = [''English'', ''Spanish'', ''French'', ''German'', ''Hindi'']"

text \<open>The sample dataset, drawn with the generator in state \<open>g\<close> on entry.\<close>

definition sample_data :: "'g sampler \<Rightarrow> 'g \<Rightarrow> dataset" where
  "sample_data smp g =
     (case draws (choice smp categories) sample_size (np_random_seed smp 42 g) of (cat, g1) \<Rightarrow>
      case draws (uniform smp (7 / 2) 5) sample_size g1 of (rating, g2) \<Rightarrow>
      case draws (exponential smp 500) sample_size g2 of (earning, g3) \<Rightarrow>
      case draws (choice smp genders) sample_size g3 of (gender, g4) \<Rightarrow>
      case draws (choice smp languages) sample_size g4 of (lang, g5) \<Rightarrow>
      case draws (uniform smp 5 500) sample_size g5 of (price, g6) \<Rightarrow>
      case draws (poisson smp 25) sample_size g6 of (orders, g7) \<Rightarrow>
      case draws (exponential smp 5) sample_size g7 of (resp, g8) \<Rightarrow>
        [(''Category'', StrCol (map Some cat)),
         (''Rating'', NumCol (map (\<lambda>x. Some (np_round 1 x)) rating)),
         (''Total_Earning'', NumCol (map (\<lambda>x. Some (np_round 2 x)) earning)),
         (''Gender'', StrCol (map Some gender)),
         (''Language'', StrCol (map Some lang)),
         (''Price'', NumCol (map (\<lambda>x. Some (np_round 2 x)) price)),
         (''Orders_Completed'', NumCol (map (\<lambda>n. Some (of_nat n)) orders)),
         (''Response_Time'', NumCol (map (\<lambda>x. Some (np_round 1 x)) resp))])"

text \<open>
  The file at \<^verbatim>\<open>DATA_PATH\<close> holds a dataset or is absent (\<open>None\<close>); writing a frame and
  reading it back is taken to give the same frame. The start of the process yields the
  data frame and the file as it is afterwards.
\<close>

definition startup :: "'g sampler \<Rightarrow> 'g \<Rightarrow> dataset option \<Rightarrow> dataset \<times> dataset option" where
  "startup smp g file =
     (case file of
        None \<Rightarrow> (let d = sample_data smp g in (d, Some d))
      | Some d \<Rightarrow> (d, Some d))"

fun nrows :: "column \<Rightarrow> nat" where
  "nrows (StrCol xs) = length xs"
| "nrows (NumCol xs) = length xs"

section \<open>Notions the properties are stated with\<close>

text \<open>A block can run on a dataset when every column it names is there.\<close>

definition columns_present :: "dataset \<Rightarrow> recipe \<Rightarrow> bool" where
  "columns_present d r = (set (needs r) \<subseteq> set (columns d))"


text \<open>The three listings of the end-to-end scenario, and the same with every column.\<close>

definition scenario_df :: dataset where
  "scenario_df =
     [(''Category'', StrCol [Some ''Writing'', Some ''Writing'', Some ''Design'']),
      (''Rating'', NumCol [Some 4, Some 5, Some (7 / 2)]),
      (''Total_Earning'', NumCol [Some 100, Some 200, Some 50])]"


definition fresh :: "dataset \<Rightarrow> world" where
  "fresh d = \<lparr>df = d, plot_folder = [], oplog = []\<rparr>"


text \<open>
  A single listing; a folder that holds a style sheet only; a folder that holds a style
  sheet and a picture left by an earlier run.
\<close>

definition single_df :: dataset where
  "single_df =
     [(''Category'', StrCol [Some ''Writing'']),
      (''Rating'', NumCol [Some 4]),
      (''Total_Earning'', NumCol [Some 100])]"



section \<open>Facts about the file operations and the run of the blocks\<close>

lemma df_os_remove [simp]: "df (os_remove f w) = df w" by (simp add: os_remove_def)
lemma df_savefig [simp]: "df (savefig f c w) = df w" by (simp add: savefig_def)

lemma clear_fold:
  "plot_folder (fold (\<lambda>f v. if is_png f then os_remove f v else v) ns w)
     = filter (\<lambda>e. \<not> (is_png (fst e) \<and> fst e \<in> set ns)) (plot_folder w)
   \<and> oplog (fold (\<lambda>f v. if is_png f then os_remove f v else v) ns w)
     = oplog w @ map Removed (filter is_png ns)
   \<and> df (fold (\<lambda>f v. if is_png f then os_remove f v else v) ns w) = df w"
proof (induction ns arbitrary: w)
  case Nil
  show ?case by simp
next
  case (Cons n ns)
  have "filter (\<lambda>e. \<not> (is_png (fst e) \<and> fst e \<in> set ns)) (filter (\<lambda>e. fst e \<noteq> n) xs)
      = filter (\<lambda>e. \<not> (is_png (fst e) \<and> fst e \<in> set (n # ns))) xs" if "is_png n" for xs :: directory
    using that by (induction xs) auto
  moreover have "filter (\<lambda>e. \<not> (is_png (fst e) \<and> fst e \<in> set ns)) xs
      = filter (\<lambda>e. \<not> (is_png (fst e) \<and> fst e \<in> set (n # ns))) xs" if "\<not> is_png n" for xs :: directory
    using that by (induction xs) auto
  ultimately show ?case using Cons.IH by (simp add: os_remove_def)
qed

lemma clear_plots_folder:
  "plot_folder (clear_plots w) = filter (\<lambda>e. \<not> is_png (fst e)) (plot_folder w)"
proof -
  have "filter (\<lambda>e. \<not> (is_png (fst e) \<and> fst e \<in> set (map fst xs))) xs
      = filter (\<lambda>e. \<not> is_png (fst e)) xs" for xs :: directory
    by (rule filter_cong) auto
  then show ?thesis by (simp add: clear_plots_def listdir_def clear_fold)
qed


lemma clear_plots_df [simp]: "df (clear_plots w) = df w"
  by (simp add: clear_plots_def clear_fold)

lemma select_present:
  "set cs \<subseteq> set (columns d) \<Longrightarrow> \<exists>sub. select d cs = Inr sub"
proof (induction cs)
  case Nil
  show ?case by simp
next
  case (Cons c cs)
  then obtain sub where s: "select d cs = Inr sub" by auto
  from Cons.prems have "c \<in> fst ` set d" by (simp add: columns_def)
  then obtain col where "map_of d c = Some col"
    by (metis domIff dom_map_of_conv_image_fst not_None_eq)
  with s show ?case by (simp add: getitem_def)
qed

lemma getitem_absent: "c \<notin> set (columns d) \<Longrightarrow> getitem d c = Inl (MissingColumn c)"
proof -
  assume "c \<notin> set (columns d)"
  then have "map_of d c = None" by (simp add: columns_def map_of_eq_None_iff)
  then show ?thesis by (simp add: getitem_def)
qed

lemma select_absent:
  "\<not> set cs \<subseteq> set (columns d) \<Longrightarrow>
     select d cs = Inl (MissingColumn (hd (filter (\<lambda>c. c \<notin> set (columns d)) cs)))"
proof (induction cs)
  case Nil
  then show ?case by simp
next
  case (Cons c cs)
  show ?case
  proof (cases "c \<in> set (columns d)")
    case False
    then show ?thesis by (simp add: getitem_absent)
  next
    case True
    then have "c \<in> fst ` set d" by (simp add: columns_def)
    then obtain col where "map_of d c = Some col"
      by (metis domIff dom_map_of_conv_image_fst not_None_eq)
    moreover from True Cons.prems have "\<not> set cs \<subseteq> set (columns d)" by auto
    ultimately show ?thesis using Cons.IH True by (simp add: getitem_def)
  qed
qed

lemma draw_present: "columns_present d r \<Longrightarrow> \<exists>img. draw r d = Inr img"
  by (cases r) (auto simp: columns_present_def dest: select_present)

lemma draw_absent:
  "\<not> columns_present d r \<Longrightarrow>
     draw r d = Inl (MissingColumn (hd (filter (\<lambda>c. c \<notin> set (columns d)) (needs r))))"
  by (cases r) (auto simp: columns_present_def select_absent)

lemma run_recipes_df [simp]: "df (snd (run_recipes rs w)) = df w"
  by (induction rs arbitrary: w) (auto split: sum.splits)




lemma run_recipes_listdir:
  "distinct (map out_name rs) \<Longrightarrow> set (map out_name rs) \<inter> set (listdir w) = {} \<Longrightarrow>
   listdir (snd (run_recipes rs w))
     = listdir w @ map out_name (takeWhile (columns_present (df w)) rs)"
proof (induction rs arbitrary: w)
  case Nil
  show ?case by simp
next
  case (Cons r rs)
  show ?case
  proof (cases "columns_present (df w) r")
    case False
    with draw_absent [OF False] show ?thesis by simp
  next
    case True
    then obtain img where d: "draw r (df w) = Inr img" using draw_present by blast
    let ?v = "savefig (out_name r) img w"
    from Cons.prems have new: "out_name r \<notin> set (listdir w)" by auto
    then have l: "listdir ?v = listdir w @ [out_name r]"
      by (simp add: listdir_def savefig_def update_keys)
    with Cons.prems have "set (map out_name rs) \<inter> set (listdir ?v) = {}" by auto
    with Cons.prems Cons.IH [of ?v] have
      "listdir (snd (run_recipes rs ?v)) = listdir ?v @ map out_name (takeWhile (columns_present (df ?v)) rs)"
      by simp
    with d l True show ?thesis by simp
  qed
qed

lemma run_recipes_result_aux:
  "df w = d \<Longrightarrow> fst (run_recipes rs w) =
     (case dropWhile (columns_present d) rs of
        [] \<Rightarrow> Inr ()
      | r # _ \<Rightarrow> Inl (MissingColumn (hd (filter (\<lambda>c. c \<notin> set (columns d)) (needs r)))))"
proof (induction rs arbitrary: w)
  case Nil
  show ?case by simp
next
  case (Cons r rs)
  show ?case
  proof (cases "columns_present d r")
    case False
    with draw_absent [OF False] Cons.prems show ?thesis by simp
  next
    case True
    then obtain img where d: "draw r d = Inr img" using draw_present by blast
    have "df (savefig (out_name r) img w) = d" using Cons.prems by simp
    from Cons.IH [OF this] d True Cons.prems show ?thesis by simp
  qed
qed


lemma recipes_distinct: "distinct (map out_name recipes)"
  by (simp add: recipes_def)

lemma recipes_png: "list_all is_png (map out_name recipes)"
  by (simp add: recipes_def is_png_def endswith_def)


section \<open>Summary metrics of the scenario; the dataset is never written\<close>

lemma np_round_scenario: "np_round 2 (25 / 6) = 417 / 100"
  by code_simp

text \<open>
  Claim C5. On the three listings of the scenario (categories Writing, Writing, Design;
  ratings 4.0, 5.0, 3.5; earnings 100, 200, 50) the home page computes 2 distinct
  categories, earnings of 350 and a mean rating of 4.17 after rounding to two decimals.
\<close>

theorem scenario_metrics:
  "fst (home \<lparr>df = scenario_df, plot_folder = p, oplog = l\<rparr>)
     = Inr \<lparr>total_users = 2, total_earnings = 350, avg_rating = Some (417 / 100)\<rparr>"
  by (simp add: home_def scenario_df_def getitem_def np_round_scenario)

lemma home_state [simp]: "snd (home w) = w"
  by (simp add: home_def split: sum.splits)

lemma generate_plots_df [simp]: "df (snd (generate_plots w)) = df w"
proof -
  obtain r v where rv: "run_recipes recipes (clear_plots w) = (r, v)" by (cases "run_recipes recipes (clear_plots w)")
  then have "df v = df w" using run_recipes_df [of recipes "clear_plots w"] by simp
  with rv show ?thesis by (cases r) (simp_all add: generate_plots_def)
qed

lemma eda_df [simp]: "df (snd (eda w)) = df w"
proof (cases "png_files w = []")
  case False
  then show ?thesis by (simp add: eda_def Let_def)
next
  case True
  obtain r v where rv: "generate_plots w = (r, v)" by (cases "generate_plots w")
  then have "df v = df w" using generate_plots_df [of w] by simp
  with rv True show ?thesis by (cases r) (simp_all add: eda_def Let_def)
qed

text \<open>
  Claim C8. The summary metrics, the chart generation and the gallery page leave the data
  frame as it was, whether they return or raise: no row is added, changed or removed.
\<close>

theorem dataset_immutable:
  "df (snd (home w)) = df w \<and> df (snd (generate_plots w)) = df w \<and> df (snd (eda w)) = df w"
  by simp

section \<open>What a run of the generation leaves behind\<close>

lemma listdir_clear_plots: "listdir (clear_plots w) = filter (\<lambda>n. \<not> is_png n) (listdir w)"
  by (simp add: listdir_def clear_plots_folder filter_map comp_def)

lemma generate_plots_snd: "snd (generate_plots w) = snd (run_recipes recipes (clear_plots w))"
  by (cases "run_recipes recipes (clear_plots w)") (auto simp: generate_plots_def split: sum.splits)

lemma recipes_names_png: "n \<in> set (map out_name recipes) \<Longrightarrow> is_png n"
  using recipes_png by (auto simp: list_all_iff)

lemma generate_plots_listdir:
  "listdir (snd (generate_plots w))
     = filter (\<lambda>n. \<not> is_png n) (listdir w)
       @ map out_name (takeWhile (columns_present (df w)) recipes)"
proof -
  have "set (map out_name recipes) \<inter> set (listdir (clear_plots w)) = {}"
    using recipes_names_png by (auto simp: listdir_clear_plots)
  from run_recipes_listdir [OF recipes_distinct this] show ?thesis
    by (simp add: generate_plots_snd listdir_clear_plots)
qed




lemma generate_plots_fst:
  "fst (generate_plots w) =
     (case fst (run_recipes recipes (clear_plots w)) of
        Inl e \<Rightarrow> Inl e
      | Inr u \<Rightarrow> Inr (length (listdir (snd (generate_plots w)))))"
  by (cases "run_recipes recipes (clear_plots w)") (auto simp: generate_plots_def split: sum.splits)









section \<open>A missing column ends the run\<close>








section \<open>The gallery page and repeated generation\<close>

















section \<open>The count of distinct categories\<close>

text \<open>
  Claim C6 says that the count of distinct categories equals the size of the closed set
  the values are drawn from. A single listing in the category Writing, drawn from the five
  categories of the program, gives the count 1, not 5.
\<close>

theorem category_count_counterexample:
  "set (dropna [Some ''Writing'']) \<subseteq> set categories
   \<and> fst (home (fresh single_df))
       = Inr \<lparr>total_users = 1, total_earnings = 100, avg_rating = Some 4\<rparr>
   \<and> card (set categories) = 5
   \<and> total_users \<lparr>total_users = 1, total_earnings = 100, avg_rating = Some 4\<rparr>
       \<noteq> card (set categories)"
proof -
  have r: "np_round 2 4 = 4" by code_simp
  have c: "card (set categories) = 5" by (simp add: categories_def)
  have h: "fst (home (fresh single_df))
       = Inr \<lparr>total_users = 1, total_earnings = 100, avg_rating = Some 4\<rparr>"
    by (simp add: home_def fresh_def single_df_def getitem_def r)
  show ?thesis using c h by (simp add: categories_def)
qed

lemma home_total_users:
  assumes "getitem (df w) ''Category'' = Inr col" and "fst (home w) = Inr m"
  shows "total_users m = nunique col"
  using assms by (auto simp: home_def split: sum.splits)

text \<open>
  Claim C6, amended. The count of distinct categories on the home page is the number of
  different values that occur in the Category column, missing cells not counted. When the
  values are drawn from a finite set \<open>C\<close> it is at most the size of \<open>C\<close>, it is the size of
  \<open>C\<close> exactly when every member of \<open>C\<close> occurs, and it is 0 for a dataset with no row.
\<close>

theorem distinct_category_count:
  assumes "getitem (df w) ''Category'' = Inr (StrCol xs)" and "fst (home w) = Inr m"
  shows "total_users m = card (set (dropna xs))
       \<and> (finite C \<and> set (dropna xs) \<subseteq> C \<longrightarrow> total_users m \<le> card C)
       \<and> (set (dropna xs) = C \<longrightarrow> total_users m = card C)
       \<and> (xs = [] \<longrightarrow> total_users m = 0)"
proof -
  have "total_users m = card (set (dropna xs))"
    using home_total_users [OF assms] by (simp add: length_remdups_card_conv)
  then show ?thesis by (auto simp: card_mono)
qed

theorem distinct_category_count_witness:
  "getitem (df (fresh scenario_df)) ''Category''
     = Inr (StrCol [Some ''Writing'', Some ''Writing'', Some ''Design''])
   \<and> fst (home (fresh scenario_df))
       = Inr \<lparr>total_users = 2, total_earnings = 350, avg_rating = Some (417 / 100)\<rparr>
   \<and> finite {''Writing'', ''Design''}
   \<and> set (dropna [Some ''Writing'', Some ''Writing'', Some ''Design'']) = {''Writing'', ''Design''}
   \<and> total_users \<lparr>total_users = 2, total_earnings = 350, avg_rating = Some (417 / 100)\<rparr>
       = card {''Writing'', ''Design''}"
proof -
  have g: "getitem (df (fresh scenario_df)) ''Category''
     = Inr (StrCol [Some ''Writing'', Some ''Writing'', Some ''Design''])"
    by (simp add: fresh_def scenario_df_def getitem_def)
  have h: "fst (home (fresh scenario_df))
       = Inr \<lparr>total_users = 2, total_earnings = 350, avg_rating = Some (417 / 100)\<rparr>"
    by (simp add: home_def fresh_def scenario_df_def getitem_def np_round_scenario)
  have s: "set (dropna [Some ''Writing'', Some ''Writing'', Some ''Design'']) = {''Writing'', ''Design''}"
    by auto
  from distinct_category_count [OF g h, of "{''Writing'', ''Design''}"] g h s show ?thesis
    by simp
qed

section \<open>The sample dataset written at the start\<close>

lemma draws_length: "draws f n g = (xs, g') \<Longrightarrow> length xs = n"
proof (induction n arbitrary: g xs g')
  case 0
  then show ?case by simp
next
  case (Suc n)
  obtain x g1 where f: "f g = (x, g1)" by (cases "f g")
  obtain ys g2 where d: "draws f n g1 = (ys, g2)" by (cases "draws f n g1")
  from Suc.prems f d have "xs = x # ys" by simp
  with Suc.IH [OF d] show ?case by simp
qed

lemma sample_data_columns:
  "columns (sample_data smp g) =
     [''Category'', ''Rating'', ''Total_Earning'', ''Gender'', ''Language'', ''Price'',
      ''Orders_Completed'', ''Response_Time'']"
  by (simp add: sample_data_def columns_def split: prod.splits)

lemma sample_data_rows: "map (\<lambda>e. nrows (snd e)) (sample_data smp g) = replicate 8 sample_size"
  by (auto simp: sample_data_def eval_nat_numeral split: prod.splits dest: draws_length)

text \<open>
  Claim C7. When the data file is absent at the start, the sample dataset is generated
  and written to the file, and no fault is raised. The generator is seeded with 42 first,
  so the dataset does not depend on the state the generator had: two starts without the
  file give the same data frame and the same file. A later start finds the file and loads
  the same dataset. Every one of the 8 columns has \<^verbatim>\<open>sample_size\<close> = 1000 rows.
\<close>

theorem startup_self_healing:
  "startup smp g None = (sample_data smp g, Some (sample_data smp g))
   \<and> sample_data smp g' = sample_data smp g
   \<and> startup smp g' None = startup smp g None
   \<and> startup smp g' (snd (startup smp g None)) = startup smp g None
   \<and> map (\<lambda>e. nrows (snd e)) (sample_data smp g) = replicate 8 1000"
  using sample_data_rows [of smp g]
  by (simp add: startup_def Let_def sample_data_def np_random_seed_def sample_size_def)

text \<open>
  Claim C1 says that the sample dataset has every column the blocks of
  \<^verbatim>\<open>generate_plots\<close> read. It has eight columns, and neither \<^verbatim>\<open>Level\<close> nor
  \<^verbatim>\<open>Review_Count\<close> is among them: on the sample dataset and an empty folder the generation
  raises at block 5, on \<^verbatim>\<open>Review_Count\<close>, after four files.
\<close>

theorem sample_data_lacks_columns:
  "columns (sample_data smp g) =
     [''Category'', ''Rating'', ''Total_Earning'', ''Gender'', ''Language'', ''Price'',
      ''Orders_Completed'', ''Response_Time'']
   \<and> ''Level'' \<notin> set (columns (sample_data smp g))
   \<and> ''Review_Count'' \<notin> set (columns (sample_data smp g))
   \<and> fst (generate_plots (fresh (sample_data smp g))) = Inl (MissingColumn ''Review_Count'')
   \<and> listdir (snd (generate_plots (fresh (sample_data smp g))))
       = [''pairplot.png'', ''correlation_heatmap.png'', ''earnings_by_rating.png'',
          ''avg_price_gender.png'']"
proof -
  let ?d = "sample_data smp g"
  have d: "df (fresh ?d) = ?d" and l: "listdir (fresh ?d) = []" by (simp_all add: fresh_def listdir_def)
  have tw: "takeWhile (columns_present ?d) recipes = take 4 recipes"
    by (simp add: recipes_def columns_present_def sample_data_columns)
  have dw: "dropWhile (columns_present ?d) recipes = drop 4 recipes"
    by (simp add: recipes_def columns_present_def sample_data_columns)
  have 1: "fst (generate_plots (fresh ?d)) = Inl (MissingColumn ''Review_Count'')"
  proof -
    have "fst (run_recipes recipes (clear_plots (fresh ?d)))
        = (case drop 4 recipes of
             [] \<Rightarrow> Inr ()
           | r # _ \<Rightarrow> Inl (MissingColumn (hd (filter (\<lambda>c. c \<notin> set (columns ?d)) (needs r)))))"
    proof -
      have "df (clear_plots (fresh ?d)) = ?d" by (simp add: d)
      from run_recipes_result_aux [OF this, of recipes] show ?thesis by (simp add: dw)
    qed
    also have "\<dots> = Inl (MissingColumn ''Review_Count'')"
      by (simp add: recipes_def sample_data_columns)
    finally show ?thesis by (simp add: generate_plots_fst)
  qed
  have 2: "listdir (snd (generate_plots (fresh ?d))) = map out_name (take 4 recipes)"
    by (simp add: generate_plots_listdir d l tw)
  show ?thesis using 1 2 by (simp add: sample_data_columns) (simp add: recipes_def)
qed

end
